theory Spec2Isabelle
  imports Main
begin

section \<open>The prerender service (prerender-service.js)\<close>

text \<open>
  The service is one Express application with three routes.  Its state is one
  process-wide \<open>NodeCache\<close>; the route \<open>GET /render\<close> drives a headless browser
  through puppeteer.  The model below follows the source statement by statement:
  \<^item> JavaScript values of the two kinds the handlers test for truthiness (a query or
    body parameter, a cache result) are \<open>string option\<close>, \<open>None\<close> being \<open>undefined\<close>; a
    parameter that Express would parse into an array or an object is not modelled, and
    \<open>req.body\<close> is taken to be an object, as \<open>express.json()\<close> leaves it;
  \<^item> every awaited puppeteer call is a step that takes some time and then resolves or
    rejects; what the browser does is an input of the request (a \<open>puppeteer\<close> record);
  \<^item> the handler's effects (cache calls, puppeteer calls, the response sent) are
    appended, in program order, to the list \<open>calls\<close> of the run;
  \<^item> one request runs from start to end without interleaving with another one, and the
    methods of the response object (\<open>res.status\<close>, \<open>res.set\<close>, \<open>res.send\<close>, \<open>res.json\<close>) do
    not throw;
  \<^item> \<open>console.log\<close> and \<open>console.error\<close> are left out, as are the rate limiter, CORS
    and the hit/miss counters behind \<open>GET /health\<close>.
\<close>

subsection \<open>JavaScript values\<close>

text \<open>Truthiness of a value that is \<open>undefined\<close> or a string: only a non-empty string is truthy.\<close>

definition truthy :: "string option \<Rightarrow> bool" where
  "truthy x = (case x of None \<Rightarrow> False | Some s \<Rightarrow> s \<noteq> [])"

text \<open>A promise that an \<open>await\<close> waits for: it resolves with a value or rejects with an
  error, of which the handler reads \<open>error.message\<close> only.\<close>

datatype 'a outcome = Resolves 'a | Rejects string

subsection \<open>The URL constructor\<close>

text \<open>
  \<open>new URL(url)\<close> (line 41) is the platform's URL parser, called with no base URL; it
  throws where the parser returns failure.  The part of the parser that decides a
  string up to its scheme is modelled here after the URL Standard's states
  \<open>scheme start\<close>, \<open>scheme\<close> and \<open>no scheme\<close>: leading and trailing C0 control characters
  and spaces are stripped, tabs and newlines are removed, a string with no scheme
  fails (there is no base), and after the scheme a non-special URL whose rest does not
  start with two slashes has an opaque path or a plain path, states that never fail
  and leave the host null.  The rest (a special scheme, or an authority after
  \<open>//\<close>: host and port parsing) is a parameter of the model, which says for a
  scheme and the rest of the input whether parsing fails (\<open>None\<close>) or which host it
  finds.
\<close>

record url =
  scheme :: string
  host :: "string option"

type_synonym authority_parser = "string \<Rightarrow> string \<Rightarrow> string option option"

definition ascii_alpha :: "char \<Rightarrow> bool" where
  "ascii_alpha c = (c \<in> set ''abcdefghijklmnopqrstuvwxyzABCDEFGHIJKLMNOPQRSTUVWXYZ'')"

definition ascii_digit :: "char \<Rightarrow> bool" where
  "ascii_digit c = (c \<in> set ''0123456789'')"

definition ascii_lowercase :: "char \<Rightarrow> char" where
  "ascii_lowercase c =
     (case map_of (zip ''ABCDEFGHIJKLMNOPQRSTUVWXYZ'' ''abcdefghijklmnopqrstuvwxyz'') c of
        None \<Rightarrow> c
      | Some l \<Rightarrow> l)"

definition c0_control_or_space :: "char \<Rightarrow> bool" where
  "c0_control_or_space c = (of_char c \<le> (32::nat))"

definition ascii_tab_or_newline :: "char \<Rightarrow> bool" where
  "ascii_tab_or_newline c = (c = CHR 0x09 \<or> c = CHR 0x0A \<or> c = CHR 0x0D)"

definition special_schemes :: "string list" where
  "special_schemes = [''ftp'', ''file'', ''http'', ''https'', ''ws'', ''wss'']"

text \<open>The scheme state: the buffer so far and the input left; the result is the
  scheme and the input after the colon.\<close>

fun scheme_state :: "string \<Rightarrow> string \<Rightarrow> (string \<times> string) option" where
  "scheme_state buffer [] = None"
| "scheme_state buffer (c # cs) =
     (if ascii_alpha c \<or> ascii_digit c \<or> c = CHR ''+'' \<or> c = CHR ''-'' \<or> c = CHR ''.''
      then scheme_state (buffer @ [ascii_lowercase c]) cs
      else if c = CHR '':'' then Some (buffer, cs)
      else None)"

definition scheme_start_state :: "string \<Rightarrow> (string \<times> string) option" where
  "scheme_start_state input =
     (case input of
        [] \<Rightarrow> None
      | c # cs \<Rightarrow> if ascii_alpha c then scheme_state [ascii_lowercase c] cs else None)"

definition new_URL :: "authority_parser \<Rightarrow> string \<Rightarrow> url option" where
  "new_URL ap input =
     (let stripped = rev (dropWhile c0_control_or_space (rev (dropWhile c0_control_or_space input)));
          cleaned = filter (\<lambda>c. \<not> ascii_tab_or_newline c) stripped
      in case scheme_start_state cleaned of
           None \<Rightarrow> None
         | Some (sch, rest) \<Rightarrow>
             if sch \<in> set special_schemes \<or> take 2 rest = ''//''
             then map_option (\<lambda>h. \<lparr>scheme = sch, host = h\<rparr>) (ap sch rest)
             else Some \<lparr>scheme = sch, host = None\<rparr>)"

subsection \<open>The render cache\<close>

text \<open>
  \<open>const cache = new NodeCache({ stdTTL: 3600, checkperiod: 600 })\<close> (lines 11 to 14).
  The two options are the source's; both are in seconds, the clock (\<open>Date.now()\<close>) is
  in milliseconds.
\<close>

definition stdTTL :: nat where
  "stdTTL = 3600"

definition checkperiod :: nat where
  "checkperiod = 600"

text \<open>Modelled from the spec: the \<open>NodeCache\<close> class is the npm package node-cache, which
  is not among the source files.  A cache entry is the spec's CacheEntry: the value
  and its absolute expiry time; the key is the key of the map.\<close>

record entry =
  val :: string
  expiresAt :: nat

type_synonym cache = "string \<rightharpoonup> entry"

text \<open>Modelled from the spec: \<open>get(key)\<close> returns absent for an unknown or expired key; an
  entry is visible only while \<open>now < expiresAt\<close>.\<close>

definition cache_get :: "cache \<Rightarrow> nat \<Rightarrow> string \<Rightarrow> string option" where
  "cache_get c now k =
     (case c k of
        None \<Rightarrow> None
      | Some e \<Rightarrow> if now < expiresAt e then Some (val e) else None)"

text \<open>Modelled from the spec: \<open>set(key, value)\<close> unconditionally stores the value with a
  freshly computed expiry, now + TTL, overwriting value and expiry of an existing key.\<close>

definition cache_set :: "cache \<Rightarrow> nat \<Rightarrow> string \<Rightarrow> string \<Rightarrow> cache" where
  "cache_set c now k x = c(k \<mapsto> \<lparr>val = x, expiresAt = now + stdTTL * 1000\<rparr>)"

text \<open>Modelled from the spec: \<open>delete(key)\<close> removes the entry if present and is a no-op
  otherwise.\<close>

definition cache_del :: "cache \<Rightarrow> string \<Rightarrow> cache" where
  "cache_del c k = c(k := None)"

text \<open>Modelled from the spec: \<open>clear()\<close> removes all entries.\<close>

definition cache_flushAll :: "cache \<Rightarrow> cache" where
  "cache_flushAll c = Map.empty"

text \<open>Modelled from the spec: the periodic expiry sweep (every \<open>checkperiod\<close> seconds)
  removes all entries whose \<open>expiresAt\<close> has passed.\<close>

definition cache_sweep :: "cache \<Rightarrow> nat \<Rightarrow> cache" where
  "cache_sweep c now =
     (\<lambda>k. case c k of
             None \<Rightarrow> None
           | Some e \<Rightarrow> if now < expiresAt e then Some e else None)"

subsection \<open>Responses, effects and the browser\<close>

datatype body = Html string | Json "(string \<times> string) list"

record response =
  status :: nat
  contentType :: string
  payload :: body

text \<open>\<open>res.status(n).json(obj)\<close>; \<open>res.json\<close> alone leaves the status at 200.\<close>

definition json :: "nat \<Rightarrow> (string \<times> string) list \<Rightarrow> response" where
  "json n obj = \<lparr>status = n, contentType = ''application/json'', payload = Json obj\<rparr>"

text \<open>\<open>res.set('Content-Type', 'text/html').send(html)\<close>.\<close>

definition html_response :: "string \<Rightarrow> response" where
  "html_response html = \<lparr>status = 200, contentType = ''text/html'', payload = Html html\<rparr>"

text \<open>The effects of a request, with the arguments the source passes.\<close>

datatype call =
    CacheGet string
  | CacheSet string string
  | Launch string "string list"
  | NewPage
  | SetUserAgent string
  | SetViewport nat nat
  | Goto string string nat
  | WaitForTimeout nat
  | Content
  | Close
  | Send response

text \<open>An awaited call: the milliseconds it takes and how its promise settles.\<close>

type_synonym 'a step = "nat \<times> 'a outcome"

text \<open>What the headless browser does at each awaited call of one request.\<close>

record puppeteer =
  launch :: "unit step"
  newPage :: "unit step"
  setUserAgent :: "unit step"
  setViewport :: "unit step"
  goto :: "unit step"
  waitForTimeout :: "unit step"
  content :: "string step"
  close :: "unit step"

text \<open>The state of one run of the handler: the cache, the clock, the local variable
  \<open>browser\<close> (truthy once \<open>puppeteer.launch\<close> has resolved) and the effects so far.\<close>

record run =
  cache :: cache
  clock :: nat
  browser :: bool
  calls :: "call list"

definition await :: "call \<Rightarrow> 'a step \<Rightarrow> ('a \<Rightarrow> run \<Rightarrow> unit outcome \<times> run) \<Rightarrow> run \<Rightarrow> unit outcome \<times> run" where
  "await c st k s =
     (let s' = s\<lparr>clock := clock s + fst st, calls := calls s @ [c]\<rparr>
      in case snd st of
           Rejects m \<Rightarrow> (Rejects m, s')
         | Resolves x \<Rightarrow> k x s')"

definition send :: "response \<Rightarrow> run \<Rightarrow> run" where
  "send r s = s\<lparr>calls := calls s @ [Send r]\<rparr>"

definition cacheKey :: "string \<Rightarrow> string" where
  "cacheKey url = ''prerender:'' @ url"

subsection \<open>GET /render\<close>

definition launch_args :: "string list" where
  "launch_args =
     [''--no-sandbox'', ''--disable-setuid-sandbox'', ''--disable-dev-shm-usage'',
      ''--disable-accelerated-2d-canvas'', ''--no-first-run'', ''--no-zygote'',
      ''--disable-gpu'']"

text \<open>The \<open>try\<close> block, lines 58 to 98.\<close>

definition try_block :: "puppeteer \<Rightarrow> string \<Rightarrow> run \<Rightarrow> unit outcome \<times> run" where
  "try_block pp url =
     await (Launch ''new'' launch_args) (launch pp) (\<lambda>_ s0.
       (await NewPage (newPage pp) (\<lambda>_.
        await (SetUserAgent ''Mozilla/5.0 (compatible; PrerenderBot/1.0)'') (setUserAgent pp) (\<lambda>_.
        await (SetViewport 1200 800) (setViewport pp) (\<lambda>_.
        await (Goto url ''networkidle0'' 30000) (goto pp) (\<lambda>_.
        await (WaitForTimeout 2000) (waitForTimeout pp) (\<lambda>_.
        await Content (content pp) (\<lambda>html s.
          (Resolves (),
           send (html_response html)
             (s\<lparr>cache := cache_set (cache s) (clock s) (cacheKey url) html,
                calls := calls s @ [CacheSet (cacheKey url) html]\<rparr>)))))))))
       (s0\<lparr>browser := True\<rparr>))"

text \<open>The \<open>catch\<close> block, lines 99 to 104.\<close>

definition catch_block :: "unit outcome \<times> run \<Rightarrow> run" where
  "catch_block r =
     (case fst r of
        Resolves _ \<Rightarrow> snd r
      | Rejects m \<Rightarrow>
          send (json 500 [(''error'', ''Failed to prerender page''), (''message'', m)]) (snd r))"

text \<open>The \<open>finally\<close> block, lines 105 to 109.  When \<open>browser.close()\<close> rejects, the
  promise of the handler rejects.\<close>

definition finally_block :: "puppeteer \<Rightarrow> run \<Rightarrow> unit outcome \<times> run" where
  "finally_block pp s =
     (if browser s then await Close (close pp) (\<lambda>_ s'. (Resolves (), s')) s
      else (Resolves (), s))"

text \<open>The handler of \<open>GET /render\<close>, lines 32 to 110: the query parameter \<open>url\<close>, the
  cache and the clock at the start of the request.\<close>

definition render_handler ::
  "authority_parser \<Rightarrow> puppeteer \<Rightarrow> string option \<Rightarrow> cache \<Rightarrow> nat \<Rightarrow> unit outcome \<times> run" where
  "render_handler ap pp query_url c now =
     (let s = \<lparr>cache = c, clock = now, browser = False, calls = []\<rparr> in
      case query_url of
        None \<Rightarrow> (Resolves (), send (json 400 [(''error'', ''URL parameter is required'')]) s)
      | Some url \<Rightarrow>
          if \<not> truthy (Some url)
          then (Resolves (), send (json 400 [(''error'', ''URL parameter is required'')]) s)
          else
            (case new_URL ap url of
               None \<Rightarrow> (Resolves (), send (json 400 [(''error'', ''Invalid URL provided'')]) s)
             | Some _ \<Rightarrow>
                 let s1 = s\<lparr>calls := calls s @ [CacheGet (cacheKey url)]\<rparr>;
                     cachedHtml = cache_get (cache s1) (clock s1) (cacheKey url)
                 in if truthy cachedHtml
                    then (Resolves (), send (html_response (the cachedHtml)) s1)
                    else finally_block pp (catch_block (try_block pp url s1))))"

subsection \<open>POST /clear-cache\<close>

text \<open>The handler of \<open>POST /clear-cache\<close>, lines 113 to 124: the field \<open>url\<close> of the JSON
  body (\<open>None\<close> when the body has none) and the cache.\<close>

definition clear_cache_handler :: "string option \<Rightarrow> cache \<Rightarrow> response \<times> cache" where
  "clear_cache_handler body_url c =
     (case body_url of
        None \<Rightarrow> (json 200 [(''message'', ''All cache cleared'')], cache_flushAll c)
      | Some url \<Rightarrow>
          if truthy (Some url)
          then (json 200 [(''message'', ''Cache cleared for '' @ url)], cache_del c (cacheKey url))
          else (json 200 [(''message'', ''All cache cleared'')], cache_flushAll c))"

subsection \<open>Reading a run\<close>

text \<open>The responses a run has sent, in order.\<close>

fun sent :: "call list \<Rightarrow> response list" where
  "sent [] = []"
| "sent (Send r # cs) = r # sent cs"
| "sent (_ # cs) = sent cs"

text \<open>The calls of a run that reach the browser.\<close>

fun browser_call :: "call \<Rightarrow> bool" where
  "browser_call (CacheGet _) = False"
| "browser_call (CacheSet _ _) = False"
| "browser_call (Send _) = False"
| "browser_call _ = True"

fun is_Launch :: "call \<Rightarrow> bool" where
  "is_Launch (Launch _ _) = True"
| "is_Launch _ = False"

fun is_CacheSet :: "call \<Rightarrow> bool" where
  "is_CacheSet (CacheSet _ _) = True"
| "is_CacheSet _ = False"

fun is_CacheGet :: "call \<Rightarrow> bool" where
  "is_CacheGet (CacheGet _) = True"
| "is_CacheGet _ = False"

text \<open>The configuration the calls of a request for \<open>url\<close> must carry: the user agent,
  the viewport, the navigation (target, wait condition, timeout of 30 seconds) and the
  settle delay of 2 seconds, in milliseconds as puppeteer takes them.\<close>

fun configured :: "string \<Rightarrow> call \<Rightarrow> bool" where
  "configured url (SetUserAgent ua) = (ua = ''Mozilla/5.0 (compatible; PrerenderBot/1.0)'')"
| "configured url (SetViewport w h) = (w = 1200 \<and> h = 800)"
| "configured url (Goto target wait timeout) =
     (target = url \<and> wait = ''networkidle0'' \<and> timeout = 30 * 1000)"
| "configured url (WaitForTimeout ms) = (ms = 2 * 1000)"
| "configured url _ = True"

text \<open>The time the awaited calls of the \<open>try\<close> block take when all of them resolve.\<close>

definition render_time :: "puppeteer \<Rightarrow> nat" where
  "render_time pp =
     fst (launch pp) + fst (newPage pp) + fst (setUserAgent pp) + fst (setViewport pp)
     + fst (goto pp) + fst (waitForTimeout pp) + fst (content pp)"

text \<open>The browser calls of a complete render, in the order of the source.\<close>

definition render_sequence :: "string \<Rightarrow> call list" where
  "render_sequence url =
     [Launch ''new'' launch_args, NewPage,
      SetUserAgent ''Mozilla/5.0 (compatible; PrerenderBot/1.0)'',
      SetViewport 1200 800, Goto url ''networkidle0'' 30000, WaitForTimeout 2000, Content]"

text \<open>The message of the first awaited call of the \<open>try\<close> block that rejects, in the
  order of the source.\<close>

definition rejection :: "'a step \<Rightarrow> string option" where
  "rejection st = (case snd st of Rejects m \<Rightarrow> Some m | Resolves _ \<Rightarrow> None)"

fun first_rejection :: "string option list \<Rightarrow> string option" where
  "first_rejection [] = None"
| "first_rejection (Some m # _) = Some m"
| "first_rejection (None # rs) = first_rejection rs"

definition render_failure :: "puppeteer \<Rightarrow> string option" where
  "render_failure pp =
     first_rejection
       [rejection (launch pp), rejection (newPage pp), rejection (setUserAgent pp),
        rejection (setViewport pp), rejection (goto pp), rejection (waitForTimeout pp),
        rejection (content pp)]"

text \<open>Two browsers for examples: one whose every call resolves and whose page has the
  given markup, and one whose navigation rejects with the given message.\<close>

definition rendering :: "string \<Rightarrow> puppeteer" where
  "rendering html =
     \<lparr>launch = (900, Resolves ()), newPage = (50, Resolves ()),
      setUserAgent = (1, Resolves ()), setViewport = (1, Resolves ()),
      goto = (1200, Resolves ()), waitForTimeout = (2000, Resolves ()),
      content = (5, Resolves html), close = (40, Resolves ())\<rparr>"

definition failing :: "string \<Rightarrow> puppeteer" where
  "failing m = (rendering [])\<lparr>goto := (30000, Rejects m)\<rparr>"

text \<open>An authority parser for examples: it takes what stands between the two slashes
  and the next slash as the host and fails when that is empty.\<close>

definition simple_authority :: authority_parser where
  "simple_authority sch rest =
     (let h = takeWhile (\<lambda>c. c \<noteq> CHR ''/'') (drop 2 rest)
      in if take 2 rest = ''//'' \<and> h \<noteq> [] then Some (Some h) else None)"

section \<open>Properties\<close>

subsection \<open>The cache\<close>

lemma cache_get_set_same:
  "cache_get (cache_set c t k x) t' k = (if t' < t + stdTTL * 1000 then Some x else None)"
  by (simp add: cache_get_def cache_set_def)

subsection \<open>The URL constructor on the examples\<close>

lemmas url_simps = new_URL_def scheme_start_state_def ascii_alpha_def ascii_digit_def
  ascii_lowercase_def c0_control_or_space_def ascii_tab_or_newline_def special_schemes_def

lemma new_URL_nonempty: "new_URL ap u = Some p \<Longrightarrow> u \<noteq> []"
  by (auto simp: new_URL_def scheme_start_state_def)

lemma new_URL_example:
  "new_URL simple_authority ''https://example.com'' =
     Some \<lparr>scheme = ''https'', host = Some ''example.com''\<rparr>"
  by (simp add: url_simps simple_authority_def)

lemma new_URL_x:
  "new_URL simple_authority ''https://x.com'' = Some \<lparr>scheme = ''https'', host = Some ''x.com''\<rparr>"
  by (simp add: url_simps simple_authority_def)

lemma new_URL_mailto: "new_URL ap ''mailto:x'' = Some \<lparr>scheme = ''mailto'', host = None\<rparr>"
  by (simp add: url_simps)

lemma new_URL_not_a_url: "new_URL ap ''not-a-url'' = None"
  by (simp add: url_simps)

subsection \<open>The paths of the handler\<close>

lemma sent_append: "sent (xs @ ys) = sent xs @ sent ys"
  by (induction xs rule: sent.induct) simp_all

lemma render_handler_missing:
  "\<not> truthy q \<Longrightarrow>
   render_handler ap pp q c now =
     (Resolves (),
      \<lparr>cache = c, clock = now, browser = False,
       calls = [Send (json 400 [(''error'', ''URL parameter is required'')])]\<rparr>)"
  by (cases q) (simp_all add: render_handler_def send_def Let_def)

lemma render_handler_invalid:
  "u \<noteq> [] \<Longrightarrow> new_URL ap u = None \<Longrightarrow>
   render_handler ap pp (Some u) c now =
     (Resolves (),
      \<lparr>cache = c, clock = now, browser = False,
       calls = [Send (json 400 [(''error'', ''Invalid URL provided'')])]\<rparr>)"
  by (simp add: render_handler_def send_def truthy_def)

lemma render_handler_hit:
  "u \<noteq> [] \<Longrightarrow> new_URL ap u = Some p \<Longrightarrow> cache_get c now (cacheKey u) = Some x \<Longrightarrow> x \<noteq> [] \<Longrightarrow>
   render_handler ap pp (Some u) c now =
     (Resolves (),
      \<lparr>cache = c, clock = now, browser = False,
       calls = [CacheGet (cacheKey u), Send (html_response x)]\<rparr>)"
  by (simp add: render_handler_def send_def truthy_def)

lemma render_handler_miss:
  "u \<noteq> [] \<Longrightarrow> new_URL ap u = Some p \<Longrightarrow> \<not> truthy (cache_get c now (cacheKey u)) \<Longrightarrow>
   render_handler ap pp (Some u) c now =
     finally_block pp (catch_block (try_block pp u
       \<lparr>cache = c, clock = now, browser = False, calls = [CacheGet (cacheKey u)]\<rparr>))"
  by (simp add: render_handler_def truthy_def)

lemma render_handler_paths:
  "(\<exists>r. calls (snd (render_handler ap pp (Some u) c now)) = [Send r])
   \<or> (\<exists>r. calls (snd (render_handler ap pp (Some u) c now)) = [CacheGet (cacheKey u), Send r])
   \<or> render_handler ap pp (Some u) c now =
        finally_block pp (catch_block (try_block pp u
          \<lparr>cache = c, clock = now, browser = False, calls = [CacheGet (cacheKey u)]\<rparr>))"
  by (auto simp: render_handler_def Let_def send_def split: option.splits)

subsection \<open>The try, catch and finally blocks\<close>

lemma try_block_ok:
  "render_failure pp = None \<Longrightarrow>
   \<exists>html. snd (content pp) = Resolves html \<and>
     try_block pp u s =
       (Resolves (),
        s\<lparr>cache := cache_set (cache s) (clock s + render_time pp) (cacheKey u) html,
          clock := clock s + render_time pp,
          browser := True,
          calls := calls s @
            [Launch ''new'' launch_args, NewPage,
             SetUserAgent ''Mozilla/5.0 (compatible; PrerenderBot/1.0)'',
             SetViewport 1200 800, Goto u ''networkidle0'' 30000, WaitForTimeout 2000,
             Content, CacheSet (cacheKey u) html, Send (html_response html)]\<rparr>)"
  by (auto simp: render_failure_def rejection_def try_block_def await_def send_def render_time_def
      add.assoc split: outcome.splits)

lemma try_block_calls_ok:
  assumes "render_failure pp = None" and "snd (content pp) = Resolves html"
  shows "try_block pp u s =
       (Resolves (),
        s\<lparr>cache := cache_set (cache s) (clock s + render_time pp) (cacheKey u) html,
          clock := clock s + render_time pp,
          browser := True,
          calls := calls s @
            [Launch ''new'' launch_args, NewPage,
             SetUserAgent ''Mozilla/5.0 (compatible; PrerenderBot/1.0)'',
             SetViewport 1200 800, Goto u ''networkidle0'' 30000, WaitForTimeout 2000,
             Content, CacheSet (cacheKey u) html, Send (html_response html)]\<rparr>)"
  using try_block_ok [OF assms(1), of u s] assms(2) by auto

lemma try_block_fails:
  assumes "render_failure pp = Some m"
  shows "fst (try_block pp u s) = Rejects m"
    and "cache (snd (try_block pp u s)) = cache s"
    and "browser (snd (try_block pp u s)) = (browser s \<or> rejection (launch pp) = None)"
    and "sent (calls (snd (try_block pp u s))) = sent (calls s)"
    and "filter is_Launch (calls (snd (try_block pp u s))) =
           filter is_Launch (calls s) @ [Launch ''new'' launch_args]"
    and "filter is_CacheSet (calls (snd (try_block pp u s))) = filter is_CacheSet (calls s)"
    and "filter (\<lambda>c. c = Close) (calls (snd (try_block pp u s))) = filter (\<lambda>c. c = Close) (calls s)"
  using assms
  unfolding render_failure_def rejection_def try_block_def await_def
  by (auto simp: sent_append split: outcome.splits)

lemma try_block_fails_calls:
  assumes "render_failure pp = Some m"
  shows "calls (snd (try_block pp u s)) =
           calls s @
           take (Suc (length (takeWhile (\<lambda>r. r = None)
                  [rejection (launch pp), rejection (newPage pp), rejection (setUserAgent pp),
                   rejection (setViewport pp), rejection (goto pp), rejection (waitForTimeout pp),
                   rejection (content pp)])))
             (render_sequence u)"
  using assms
  unfolding render_failure_def rejection_def try_block_def await_def render_sequence_def
  by (auto split: outcome.splits)

lemma filter_take_render_sequence:
  "filter browser_call (take n (render_sequence u)) = take n (render_sequence u)"
  "list_all (configured u) (take n (render_sequence u))"
proof -
  have "list_all browser_call (render_sequence u)" "list_all (configured u) (render_sequence u)"
    by (simp_all add: render_sequence_def)
  then show "filter browser_call (take n (render_sequence u)) = take n (render_sequence u)"
    "list_all (configured u) (take n (render_sequence u))"
    by (auto simp: list_all_iff filter_id_conv dest: in_set_takeD)
qed

lemma try_block_calls:
  "\<exists>n. filter browser_call (calls (snd (try_block pp u s))) =
         filter browser_call (calls s) @ take n (render_sequence u)
       \<and> list_all (configured u) (calls (snd (try_block pp u s))) = list_all (configured u) (calls s)"
proof (cases "render_failure pp")
  case None
  from try_block_ok [OF None, of u s] obtain html where
    "try_block pp u s =
       (Resolves (),
        s\<lparr>cache := cache_set (cache s) (clock s + render_time pp) (cacheKey u) html,
          clock := clock s + render_time pp,
          browser := True,
          calls := calls s @
            [Launch ''new'' launch_args, NewPage,
             SetUserAgent ''Mozilla/5.0 (compatible; PrerenderBot/1.0)'',
             SetViewport 1200 800, Goto u ''networkidle0'' 30000, WaitForTimeout 2000,
             Content, CacheSet (cacheKey u) html, Send (html_response html)]\<rparr>)"
    by blast
  then have "filter browser_call (calls (snd (try_block pp u s))) =
         filter browser_call (calls s) @ take 7 (render_sequence u)
       \<and> list_all (configured u) (calls (snd (try_block pp u s))) = list_all (configured u) (calls s)"
    by (simp add: render_sequence_def)
  then show ?thesis ..
next
  case (Some m)
  show ?thesis
    by (rule exI, simp add: try_block_fails_calls [OF Some] filter_take_render_sequence)
qed

lemma try_block_launched:
  shows "snd (launch pp) = Resolves () \<Longrightarrow> browser (snd (try_block pp u s))"
    and "filter (\<lambda>c. c = Close) (calls (snd (try_block pp u s))) =
           filter (\<lambda>c. c = Close) (calls s)"
    and "filter is_Launch (calls (snd (try_block pp u s))) =
           filter is_Launch (calls s) @ [Launch ''new'' launch_args]"
    and "length (sent (calls (snd (try_block pp u s)))) =
           length (sent (calls s)) + (case fst (try_block pp u s) of Resolves _ \<Rightarrow> 1 | Rejects _ \<Rightarrow> 0)"
proof -
  consider (ok) "render_failure pp = None" | (fails) m where "render_failure pp = Some m"
    by (cases "render_failure pp") auto
  then have "(snd (launch pp) = Resolves () \<longrightarrow> browser (snd (try_block pp u s)))
    \<and> filter (\<lambda>c. c = Close) (calls (snd (try_block pp u s))) = filter (\<lambda>c. c = Close) (calls s)
    \<and> filter is_Launch (calls (snd (try_block pp u s))) =
        filter is_Launch (calls s) @ [Launch ''new'' launch_args]
    \<and> length (sent (calls (snd (try_block pp u s)))) =
        length (sent (calls s)) + (case fst (try_block pp u s) of Resolves _ \<Rightarrow> 1 | Rejects _ \<Rightarrow> 0)"
  proof cases
    case ok
    from try_block_ok [OF ok, of u s] obtain html where
      "try_block pp u s =
       (Resolves (),
        s\<lparr>cache := cache_set (cache s) (clock s + render_time pp) (cacheKey u) html,
          clock := clock s + render_time pp,
          browser := True,
          calls := calls s @
            [Launch ''new'' launch_args, NewPage,
             SetUserAgent ''Mozilla/5.0 (compatible; PrerenderBot/1.0)'',
             SetViewport 1200 800, Goto u ''networkidle0'' 30000, WaitForTimeout 2000,
             Content, CacheSet (cacheKey u) html, Send (html_response html)]\<rparr>)"
      by blast
    then show ?thesis
      by (simp add: sent_append)
  next
    case fails
    show ?thesis
      by (simp add: try_block_fails [OF fails] rejection_def)
  qed
  then show "snd (launch pp) = Resolves () \<Longrightarrow> browser (snd (try_block pp u s))"
    and "filter (\<lambda>c. c = Close) (calls (snd (try_block pp u s))) =
           filter (\<lambda>c. c = Close) (calls s)"
    and "filter is_Launch (calls (snd (try_block pp u s))) =
           filter is_Launch (calls s) @ [Launch ''new'' launch_args]"
    and "length (sent (calls (snd (try_block pp u s)))) =
           length (sent (calls s)) + (case fst (try_block pp u s) of Resolves _ \<Rightarrow> 1 | Rejects _ \<Rightarrow> 0)"
    by simp_all
qed

lemma try_block_same_calls:
  assumes "calls s' = calls s" and "browser s' = browser s"
  shows "calls (snd (try_block pp u s')) = calls (snd (try_block pp u s))"
    and "browser (snd (try_block pp u s')) = browser (snd (try_block pp u s))"
    and "fst (try_block pp u s') = fst (try_block pp u s)"
proof -
  have "calls (snd (try_block pp u s')) = calls (snd (try_block pp u s))
    \<and> browser (snd (try_block pp u s')) = browser (snd (try_block pp u s))
    \<and> fst (try_block pp u s') = fst (try_block pp u s)"
  proof (cases "render_failure pp")
    case None
    from try_block_ok [OF None, of u s] try_block_ok [OF None, of u s'] show ?thesis
      using assms by auto
  next
    case (Some m)
    show ?thesis
      using assms by (simp add: try_block_fails_calls [OF Some] try_block_fails [OF Some])
  qed
  then show "calls (snd (try_block pp u s')) = calls (snd (try_block pp u s))"
    and "browser (snd (try_block pp u s')) = browser (snd (try_block pp u s))"
    and "fst (try_block pp u s') = fst (try_block pp u s)"
    by simp_all
qed

lemma try_block_close: "try_block (pp\<lparr>close := cl\<rparr>) u s = try_block pp u s"
  by (simp add: try_block_def)

lemma catch_block_rejects:
  "fst r = Rejects m \<Longrightarrow>
   catch_block r = (snd r)\<lparr>calls := calls (snd r) @
     [Send (json 500 [(''error'', ''Failed to prerender page''), (''message'', m)])]\<rparr>"
  by (simp add: catch_block_def send_def)

lemma catch_block_fields:
  shows "browser (catch_block r) = browser (snd r)"
    and "filter (\<lambda>c. c = Close) (calls (catch_block r)) = filter (\<lambda>c. c = Close) (calls (snd r))"
    and "filter is_Launch (calls (catch_block r)) = filter is_Launch (calls (snd r))"
    and "sent (calls (catch_block r)) =
           sent (calls (snd r)) @
           (case fst r of
              Resolves _ \<Rightarrow> []
            | Rejects m \<Rightarrow> [json 500 [(''error'', ''Failed to prerender page''), (''message'', m)]])"
  by (auto simp: catch_block_def send_def sent_append split: outcome.splits)

lemma catch_block_calls:
  shows "filter browser_call (calls (catch_block r)) = filter browser_call (calls (snd r))"
    and "list_all (configured u) (calls (catch_block r)) = list_all (configured u) (calls (snd r))"
  by (auto simp: catch_block_def send_def split: outcome.splits)

lemma catch_block_calls_eq:
  "calls (catch_block r) =
     calls (snd r) @
     (case fst r of
        Resolves _ \<Rightarrow> []
      | Rejects m \<Rightarrow> [Send (json 500 [(''error'', ''Failed to prerender page''), (''message'', m)])])"
  by (simp add: catch_block_def send_def split: outcome.splits)

lemma finally_block_calls:
  shows "calls (snd (finally_block pp s)) = calls s @ (if browser s then [Close] else [])"
  and "cache (snd (finally_block pp s)) = cache s"
  and "fst (finally_block pp s) = (if browser s then (case snd (close pp) of Resolves _ \<Rightarrow> Resolves () | Rejects m \<Rightarrow> Rejects m) else Resolves ())"
  by (auto simp: finally_block_def await_def Let_def split: outcome.splits)

lemma render_handler_close:
  shows "calls (snd (render_handler ap (pp\<lparr>close := cl\<rparr>) q c now)) =
           calls (snd (render_handler ap pp q c now))"
    and "cache (snd (render_handler ap (pp\<lparr>close := cl\<rparr>) q c now)) =
           cache (snd (render_handler ap pp q c now))"
  by (simp_all add: render_handler_def Let_def try_block_close finally_block_calls
      split: option.splits)

lemma render_handler_fresh:
  assumes "new_URL ap u = Some p"
    and "\<not> truthy (cache_get c now (cacheKey u))"
    and "render_failure pp = None"
    and "snd (content pp) = Resolves html"
  shows "calls (snd (render_handler ap pp (Some u) c now)) =
           [CacheGet (cacheKey u), Launch ''new'' launch_args, NewPage,
            SetUserAgent ''Mozilla/5.0 (compatible; PrerenderBot/1.0)'',
            SetViewport 1200 800, Goto u ''networkidle0'' 30000, WaitForTimeout 2000,
            Content, CacheSet (cacheKey u) html, Send (html_response html), Close]"
    and "cache (snd (render_handler ap pp (Some u) c now)) =
           cache_set c (now + render_time pp) (cacheKey u) html"
    and "fst (render_handler ap pp (Some u) c now) =
           (case snd (close pp) of Resolves _ \<Rightarrow> Resolves () | Rejects m \<Rightarrow> Rejects m)"
proof -
  let ?s = "\<lparr>cache = c, clock = now, browser = False, calls = [CacheGet (cacheKey u)]\<rparr>"
  have h: "render_handler ap pp (Some u) c now = finally_block pp (catch_block (try_block pp u ?s))"
    using assms(1,2) by (simp add: render_handler_miss new_URL_nonempty)
  have t: "catch_block (try_block pp u ?s) = snd (try_block pp u ?s)"
    by (simp add: try_block_calls_ok [OF assms(3,4)] catch_block_def)
  show "calls (snd (render_handler ap pp (Some u) c now)) =
           [CacheGet (cacheKey u), Launch ''new'' launch_args, NewPage,
            SetUserAgent ''Mozilla/5.0 (compatible; PrerenderBot/1.0)'',
            SetViewport 1200 800, Goto u ''networkidle0'' 30000, WaitForTimeout 2000,
            Content, CacheSet (cacheKey u) html, Send (html_response html), Close]"
    unfolding h t by (simp add: finally_block_calls try_block_calls_ok [OF assms(3,4)])
  show "cache (snd (render_handler ap pp (Some u) c now)) =
           cache_set c (now + render_time pp) (cacheKey u) html"
    unfolding h t by (simp add: finally_block_calls try_block_calls_ok [OF assms(3,4)])
  show "fst (render_handler ap pp (Some u) c now) =
           (case snd (close pp) of Resolves _ \<Rightarrow> Resolves () | Rejects m \<Rightarrow> Rejects m)"
    unfolding h t by (simp add: finally_block_calls try_block_calls_ok [OF assms(3,4)])
qed

subsection \<open>The example browsers\<close>

lemma render_failure_rendering: "render_failure (rendering h) = None"
  by (simp add: render_failure_def rejection_def rendering_def)

lemma render_failure_failing: "render_failure (failing m) = Some m"
  by (simp add: render_failure_def rejection_def rendering_def failing_def)

lemma content_rendering: "snd (content (rendering h)) = Resolves h"
  by (simp add: rendering_def)

lemma render_time_rendering: "render_time (rendering h) = 4157"
  by (simp add: render_time_def rendering_def)

subsection \<open>A cache hit short-circuits the render\<close>

text \<open>
  Claim C1.  For a request \<open>GET /render?url=U\<close> whose \<open>U\<close> the URL constructor accepts, if
  the cache holds an unexpired, non-empty value for the key \<open>prerender:\<close> followed by \<open>U\<close>,
  then the handler looks the key up once and sends exactly that value with status 200
  and \<open>Content-Type: text/html\<close>; it makes no browser call, and cache and clock are
  unchanged.  The counterexample shows why the value must be non-empty: with the empty
  string cached, the browser is launched and the body sent is the fresh markup.
\<close>

theorem cache_hit_served:
  assumes "new_URL ap u = Some p"
    and "cache_get c now (cacheKey u) = Some x"
    and "x \<noteq> []"
  shows "render_handler ap pp (Some u) c now =
           (Resolves (),
            \<lparr>cache = c, clock = now, browser = False,
             calls = [CacheGet (''prerender:'' @ u),
                      Send \<lparr>status = 200, contentType = ''text/html'', payload = Html x\<rparr>]\<rparr>)
         \<and> filter browser_call (calls (snd (render_handler ap pp (Some u) c now))) = []"
  using render_handler_hit [OF new_URL_nonempty [OF assms(1)] assms]
  by (simp add: html_response_def cacheKey_def)

theorem cache_hit_served_witness:
  "new_URL simple_authority ''https://example.com'' =
     Some \<lparr>scheme = ''https'', host = Some ''example.com''\<rparr>
   \<and> cache_get (cache_set Map.empty 1000 ''prerender:https://example.com'' ''<html>CACHED</html>'')
        5000 ''prerender:https://example.com'' = Some ''<html>CACHED</html>''
   \<and> render_handler simple_authority (failing ''timeout'') (Some ''https://example.com'')
        (cache_set Map.empty 1000 ''prerender:https://example.com'' ''<html>CACHED</html>'') 5000 =
       (Resolves (),
        \<lparr>cache = cache_set Map.empty 1000 ''prerender:https://example.com'' ''<html>CACHED</html>'',
         clock = 5000, browser = False,
         calls = [CacheGet ''prerender:https://example.com'',
                  Send \<lparr>status = 200, contentType = ''text/html'',
                        payload = Html ''<html>CACHED</html>''\<rparr>]\<rparr>)"
proof -
  have k: "cacheKey ''https://example.com'' = ''prerender:https://example.com''"
    by (simp add: cacheKey_def)
  have g: "cache_get (cache_set Map.empty 1000 ''prerender:https://example.com'' ''<html>CACHED</html>'')
        5000 (cacheKey ''https://example.com'') = Some ''<html>CACHED</html>''"
    unfolding k by (simp add: cache_get_set_same stdTTL_def)
  show ?thesis
    using cache_hit_served [OF new_URL_example g, of "failing ''timeout''"] g
    by (simp add: new_URL_example k)
qed

theorem cache_hit_empty_counterexample:
  "new_URL simple_authority ''https://example.com'' =
     Some \<lparr>scheme = ''https'', host = Some ''example.com''\<rparr>
   \<and> cache_get (cache_set Map.empty 1000 ''prerender:https://example.com'' '''')
        5000 ''prerender:https://example.com'' = Some ''''
   \<and> calls (snd (render_handler simple_authority (rendering ''<html>FRESH</html>'')
        (Some ''https://example.com'')
        (cache_set Map.empty 1000 ''prerender:https://example.com'' '''') 5000)) =
       [CacheGet ''prerender:https://example.com'', Launch ''new'' launch_args, NewPage,
        SetUserAgent ''Mozilla/5.0 (compatible; PrerenderBot/1.0)'',
        SetViewport 1200 800, Goto ''https://example.com'' ''networkidle0'' 30000,
        WaitForTimeout 2000, Content,
        CacheSet ''prerender:https://example.com'' ''<html>FRESH</html>'',
        Send \<lparr>status = 200, contentType = ''text/html'', payload = Html ''<html>FRESH</html>''\<rparr>,
        Close]"
proof -
  have k: "cacheKey ''https://example.com'' = ''prerender:https://example.com''"
    by (simp add: cacheKey_def)
  have g: "cache_get (cache_set Map.empty 1000 ''prerender:https://example.com'' '''')
        5000 (cacheKey ''https://example.com'') = Some ''''"
    unfolding k by (simp add: cache_get_set_same stdTTL_def)
  then have m: "\<not> truthy (cache_get (cache_set Map.empty 1000 ''prerender:https://example.com'' '''')
        5000 (cacheKey ''https://example.com''))"
    by (simp add: truthy_def)
  show ?thesis
    using render_handler_fresh(1) [OF new_URL_example m render_failure_rendering content_rendering,
        of "''<html>FRESH</html>''"] g
    by (simp add: new_URL_example k html_response_def)
qed

subsection \<open>Expiry\<close>

text \<open>
  Claim C2.  For every key and value, a \<open>get\<close> at the time of the \<open>set\<close>, and at any time
  before the expiry, returns the value that was set.  The expiry is the time of the
  \<open>set\<close> plus the fixed TTL of 3600 seconds.  From the expiry on, \<open>get\<close> returns absent,
  both on the cache as it is and on the cache after an expiry sweep, whenever the sweep
  ran.
\<close>

theorem cache_ttl:
  "cache_get (cache_set c now k v) now k = Some v
   \<and> (\<forall>t. t < now + 3600 * 1000 \<longrightarrow> cache_get (cache_set c now k v) t k = Some v)
   \<and> (\<forall>t swept. now + 3600 * 1000 \<le> t \<longrightarrow>
          cache_get (cache_set c now k v) t k = None
          \<and> cache_get (cache_sweep (cache_set c now k v) swept) t k = None)"
  by (simp add: cache_get_def cache_set_def cache_sweep_def stdTTL_def)

theorem cache_ttl_witness:
  "cache_get (cache_set Map.empty 1000 ''prerender:https://example.com'' ''<html>CACHED</html>'')
       1000 ''prerender:https://example.com'' = Some ''<html>CACHED</html>''
   \<and> cache_get (cache_set Map.empty 1000 ''prerender:https://example.com'' ''<html>CACHED</html>'')
       3600999 ''prerender:https://example.com'' = Some ''<html>CACHED</html>''
   \<and> cache_get (cache_set Map.empty 1000 ''prerender:https://example.com'' ''<html>CACHED</html>'')
       3601000 ''prerender:https://example.com'' = None
   \<and> cache_get
        (cache_sweep
           (cache_set Map.empty 1000 ''prerender:https://example.com'' ''<html>CACHED</html>'')
           3601000)
        3601000 ''prerender:https://example.com'' = None"
  using cache_ttl [of Map.empty 1000 "''prerender:https://example.com''" "''<html>CACHED</html>''"]
  by simp

subsection \<open>A failed render is reported and leaves the cache alone\<close>

text \<open>
  Claim C3.  For a request with an accepted URL and no truthy cache value, if an awaited
  call of the render (launch, new page, user agent, viewport, navigation, settle delay
  or content) rejects with message \<open>m\<close>, then the one response sent is status 500 with
  the JSON body \<open>{error: 'Failed to prerender page', message: m}\<close>, the cache after the
  request is the cache before it, no \<open>cache.set\<close> was called, and the browser was
  launched exactly once (no retry).
\<close>

theorem render_failure_reported:
  assumes "new_URL ap u = Some p"
    and "\<not> truthy (cache_get c now (cacheKey u))"
    and "render_failure pp = Some m"
  shows "sent (calls (snd (render_handler ap pp (Some u) c now))) =
           [\<lparr>status = 500, contentType = ''application/json'',
             payload = Json [(''error'', ''Failed to prerender page''), (''message'', m)]\<rparr>]
         \<and> cache (snd (render_handler ap pp (Some u) c now)) = c
         \<and> filter is_CacheSet (calls (snd (render_handler ap pp (Some u) c now))) = []
         \<and> filter is_Launch (calls (snd (render_handler ap pp (Some u) c now))) =
             [Launch ''new'' launch_args]"
proof -
  let ?s = "\<lparr>cache = c, clock = now, browser = False, calls = [CacheGet (cacheKey u)]\<rparr>"
  let ?t = "try_block pp u ?s"
  have h: "render_handler ap pp (Some u) c now = finally_block pp (catch_block ?t)"
    using assms(1,2) by (simp add: render_handler_miss new_URL_nonempty)
  have c: "catch_block ?t = (snd ?t)\<lparr>calls := calls (snd ?t) @
     [Send (json 500 [(''error'', ''Failed to prerender page''), (''message'', m)])]\<rparr>"
    using try_block_fails(1) [OF assms(3)] by (rule catch_block_rejects)
  show ?thesis
    unfolding h c
    by (simp add: finally_block_calls try_block_fails [OF assms(3)] sent_append json_def)
qed

theorem render_failure_reported_witness:
  "new_URL simple_authority ''https://example.com'' =
     Some \<lparr>scheme = ''https'', host = Some ''example.com''\<rparr>
   \<and> \<not> truthy (cache_get Map.empty 0 (cacheKey ''https://example.com''))
   \<and> render_failure (failing ''timeout'') = Some ''timeout''
   \<and> sent (calls (snd (render_handler simple_authority (failing ''timeout'')
          (Some ''https://example.com'') Map.empty 0))) =
        [\<lparr>status = 500, contentType = ''application/json'',
          payload = Json [(''error'', ''Failed to prerender page''), (''message'', ''timeout'')]\<rparr>]
   \<and> cache (snd (render_handler simple_authority (failing ''timeout'')
          (Some ''https://example.com'') Map.empty 0)) = Map.empty
   \<and> filter is_CacheSet (calls (snd (render_handler simple_authority (failing ''timeout'')
          (Some ''https://example.com'') Map.empty 0))) = []
   \<and> filter is_Launch (calls (snd (render_handler simple_authority (failing ''timeout'')
          (Some ''https://example.com'') Map.empty 0))) = [Launch ''new'' launch_args]"
proof -
  have m: "\<not> truthy (cache_get Map.empty 0 (cacheKey ''https://example.com''))"
    by (simp add: cache_get_def truthy_def)
  show ?thesis
    using render_failure_reported [OF new_URL_example m render_failure_failing]
    by (simp add: new_URL_example m render_failure_failing)
qed

subsection \<open>A fresh render is stored before it is sent\<close>

text \<open>
  Claim C4.  For a request with an accepted URL and no truthy cache value, if every
  awaited call of the render resolves and the page content is \<open>html\<close>, then the calls of
  the request are, in this order, the cache lookup, the render, \<open>cache.set\<close> of \<open>html\<close> under
  the request's key, the response (status 200, \<open>text/html\<close>, body \<open>html\<close>) and the close of the
  browser.  Until the entry expires, 3600 seconds after the store, the cache's \<open>get\<close>
  returns \<open>html\<close>, and when \<open>html\<close> is not empty a later request for the same URL, whatever
  the browser would do, is served from the cache with no browser call.  The
  counterexample is the empty markup: it is stored and returned by \<open>get\<close>, and the next
  request launches the browser again.
\<close>

theorem fresh_render_stored:
  assumes "new_URL ap u = Some p"
    and "\<not> truthy (cache_get c now (cacheKey u))"
    and "render_failure pp = None"
    and "snd (content pp) = Resolves html"
  shows "calls (snd (render_handler ap pp (Some u) c now)) =
           [CacheGet (cacheKey u), Launch ''new'' launch_args, NewPage,
            SetUserAgent ''Mozilla/5.0 (compatible; PrerenderBot/1.0)'',
            SetViewport 1200 800, Goto u ''networkidle0'' 30000, WaitForTimeout 2000,
            Content, CacheSet (cacheKey u) html,
            Send \<lparr>status = 200, contentType = ''text/html'', payload = Html html\<rparr>, Close]
         \<and> cache (snd (render_handler ap pp (Some u) c now)) =
             cache_set c (now + render_time pp) (cacheKey u) html
         \<and> (\<forall>t. t < now + render_time pp + 3600 * 1000 \<longrightarrow>
               cache_get (cache (snd (render_handler ap pp (Some u) c now))) t (cacheKey u) = Some html)
         \<and> (\<forall>t pp'. t < now + render_time pp + 3600 * 1000 \<and> html \<noteq> [] \<longrightarrow>
               calls (snd (render_handler ap pp' (Some u)
                  (cache (snd (render_handler ap pp (Some u) c now))) t)) =
                 [CacheGet (cacheKey u),
                  Send \<lparr>status = 200, contentType = ''text/html'', payload = Html html\<rparr>])"
proof -
  note f = render_handler_fresh [OF assms]
  have g: "\<And>t. t < now + render_time pp + 3600 * 1000 \<Longrightarrow>
      cache_get (cache_set c (now + render_time pp) (cacheKey u) html) t (cacheKey u) = Some html"
    by (simp add: cache_get_set_same stdTTL_def)
  have "\<And>t pp'. t < now + render_time pp + 3600 * 1000 \<Longrightarrow> html \<noteq> [] \<Longrightarrow>
      calls (snd (render_handler ap pp' (Some u)
          (cache_set c (now + render_time pp) (cacheKey u) html) t)) =
        [CacheGet (cacheKey u), Send (html_response html)]"
    using assms(1) by (simp add: render_handler_hit [OF _ assms(1)] new_URL_nonempty g)
  then show ?thesis
    using g by (simp add: f html_response_def)
qed

theorem fresh_render_stored_witness:
  "new_URL simple_authority ''https://x.com'' = Some \<lparr>scheme = ''https'', host = Some ''x.com''\<rparr>
   \<and> \<not> truthy (cache_get Map.empty 1000 (cacheKey ''https://x.com''))
   \<and> render_failure (rendering ''<html>FRESH</html>'') = None
   \<and> snd (content (rendering ''<html>FRESH</html>'')) = Resolves ''<html>FRESH</html>''
   \<and> calls (snd (render_handler simple_authority (rendering ''<html>FRESH</html>'')
          (Some ''https://x.com'') Map.empty 1000)) =
         [CacheGet ''prerender:https://x.com'', Launch ''new'' launch_args, NewPage,
          SetUserAgent ''Mozilla/5.0 (compatible; PrerenderBot/1.0)'',
          SetViewport 1200 800, Goto ''https://x.com'' ''networkidle0'' 30000,
          WaitForTimeout 2000, Content,
          CacheSet ''prerender:https://x.com'' ''<html>FRESH</html>'',
          Send \<lparr>status = 200, contentType = ''text/html'', payload = Html ''<html>FRESH</html>''\<rparr>,
          Close]
   \<and> cache_get (cache (snd (render_handler simple_authority (rendering ''<html>FRESH</html>'')
          (Some ''https://x.com'') Map.empty 1000))) 60000 ''prerender:https://x.com'' =
         Some ''<html>FRESH</html>''
   \<and> calls (snd (render_handler simple_authority (failing ''timeout'') (Some ''https://x.com'')
          (cache (snd (render_handler simple_authority (rendering ''<html>FRESH</html>'')
             (Some ''https://x.com'') Map.empty 1000))) 60000)) =
         [CacheGet ''prerender:https://x.com'',
          Send \<lparr>status = 200, contentType = ''text/html'', payload = Html ''<html>FRESH</html>''\<rparr>]"
proof -
  have m: "\<not> truthy (cache_get Map.empty 1000 (cacheKey ''https://x.com''))"
    by (simp add: cache_get_def truthy_def)
  note w = fresh_render_stored [OF new_URL_x m render_failure_rendering content_rendering,
      of "''<html>FRESH</html>''"]
  note w1 = w [THEN conjunct1]
  note w3 = w [THEN conjunct2, THEN conjunct2, THEN conjunct1, rule_format, where t = 60000]
  note w4 = w [THEN conjunct2, THEN conjunct2, THEN conjunct2, rule_format,
      where t = 60000 and pp' = "failing ''timeout''"]
  have k: "cacheKey ''https://x.com'' = ''prerender:https://x.com''"
    by (simp add: cacheKey_def)
  show ?thesis
    using w1 w3 w4 m
    by (simp add: new_URL_x render_failure_rendering content_rendering k render_time_rendering)
qed

theorem fresh_render_empty_counterexample:
  "new_URL simple_authority ''https://x.com'' = Some \<lparr>scheme = ''https'', host = Some ''x.com''\<rparr>
   \<and> sent (calls (snd (render_handler simple_authority (rendering '''')
          (Some ''https://x.com'') Map.empty 1000))) =
         [\<lparr>status = 200, contentType = ''text/html'', payload = Html ''''\<rparr>]
   \<and> cache_get (cache (snd (render_handler simple_authority (rendering '''')
          (Some ''https://x.com'') Map.empty 1000))) 60000 ''prerender:https://x.com'' = Some ''''
   \<and> filter is_Launch (calls (snd (render_handler simple_authority (rendering '''')
          (Some ''https://x.com'')
          (cache (snd (render_handler simple_authority (rendering '''')
             (Some ''https://x.com'') Map.empty 1000))) 60000))) =
         [Launch ''new'' launch_args]"
proof -
  have m: "\<not> truthy (cache_get Map.empty 1000 (cacheKey ''https://x.com''))"
    by (simp add: cache_get_def truthy_def)
  note f = render_handler_fresh [OF new_URL_x m render_failure_rendering content_rendering, of "''''"]
  have g: "cache_get (cache_set Map.empty (1000 + render_time (rendering '''')) (cacheKey ''https://x.com'') '''')
      60000 (cacheKey ''https://x.com'') = Some ''''"
    by (simp add: cache_get_set_same render_time_rendering stdTTL_def)
  then have m2: "\<not> truthy (cache_get (cache_set Map.empty (1000 + render_time (rendering ''''))
      (cacheKey ''https://x.com'') '''') 60000 (cacheKey ''https://x.com''))"
    by (simp add: truthy_def)
  note f2 = render_handler_fresh [OF new_URL_x m2 render_failure_rendering content_rendering]
  have k: "cacheKey ''https://x.com'' = ''prerender:https://x.com''"
    by (simp add: cacheKey_def)
  show ?thesis
    using g f(1,2) f2(1) by (simp add: new_URL_x html_response_def k)
qed

subsection \<open>Invalid input is rejected before any lookup or render\<close>

text \<open>
  Claim C5.  When the query parameter \<open>url\<close> is missing, is the empty string, or is a
  string for which \<open>new URL\<close> throws, the handler sends status 400 with a JSON error
  (\<open>URL parameter is required\<close> in the first two cases, \<open>Invalid URL provided\<close> in the
  third) and does nothing else: no cache lookup, no browser call, cache and clock
  unchanged.  The counterexample is a URL with a scheme and no host: \<open>new URL\<close> accepts
  \<open>mailto:x\<close> (its host is null), so the request goes on to the cache lookup and the
  render, and ends with status 500 when the navigation fails.
\<close>

theorem invalid_input_rejected:
  assumes "q = None \<or> q = Some [] \<or> (\<exists>u. q = Some u \<and> new_URL ap u = None)"
  shows "render_handler ap pp q c now =
           (Resolves (),
            \<lparr>cache = c, clock = now, browser = False,
             calls = [Send \<lparr>status = 400, contentType = ''application/json'',
                            payload = Json [(''error'',
                              if truthy q then ''Invalid URL provided''
                              else ''URL parameter is required'')]\<rparr>]\<rparr>)
         \<and> filter is_CacheGet (calls (snd (render_handler ap pp q c now))) = []
         \<and> filter browser_call (calls (snd (render_handler ap pp q c now))) = []"
proof (cases "truthy q")
  case False
  then show ?thesis
    by (simp add: render_handler_missing json_def)
next
  case True
  then obtain u where u: "q = Some u" "u \<noteq> []"
    by (auto simp: truthy_def split: option.splits)
  with assms have "new_URL ap u = None"
    by auto
  with u True show ?thesis
    by (simp add: render_handler_invalid json_def)
qed

theorem invalid_input_rejected_witness:
  "new_URL simple_authority ''not-a-url'' = None
   \<and> render_handler simple_authority (rendering ''<html>FRESH</html>'') (Some ''not-a-url'')
        Map.empty 1000 =
       (Resolves (),
        \<lparr>cache = Map.empty, clock = 1000, browser = False,
         calls = [Send \<lparr>status = 400, contentType = ''application/json'',
                        payload = Json [(''error'', ''Invalid URL provided'')]\<rparr>]\<rparr>)
   \<and> render_handler simple_authority (rendering ''<html>FRESH</html>'') None Map.empty 1000 =
       (Resolves (),
        \<lparr>cache = Map.empty, clock = 1000, browser = False,
         calls = [Send \<lparr>status = 400, contentType = ''application/json'',
                        payload = Json [(''error'', ''URL parameter is required'')]\<rparr>]\<rparr>)"
  using invalid_input_rejected [of "Some ''not-a-url''" simple_authority
      "rendering ''<html>FRESH</html>''" Map.empty 1000]
    invalid_input_rejected [of None simple_authority "rendering ''<html>FRESH</html>''" Map.empty 1000]
  by (simp add: new_URL_not_a_url truthy_def)

theorem hostless_url_counterexample:
  "new_URL simple_authority ''mailto:x'' = Some \<lparr>scheme = ''mailto'', host = None\<rparr>
   \<and> calls (snd (render_handler simple_authority (failing ''net::ERR_ABORTED'') (Some ''mailto:x'')
        Map.empty 1000)) =
       [CacheGet ''prerender:mailto:x'', Launch ''new'' launch_args, NewPage,
        SetUserAgent ''Mozilla/5.0 (compatible; PrerenderBot/1.0)'',
        SetViewport 1200 800, Goto ''mailto:x'' ''networkidle0'' 30000,
        Send \<lparr>status = 500, contentType = ''application/json'',
              payload = Json [(''error'', ''Failed to prerender page''),
                              (''message'', ''net::ERR_ABORTED'')]\<rparr>,
        Close]"
  by (simp add: new_URL_mailto render_handler_def truthy_def cache_get_def cacheKey_def
      try_block_def catch_block_def finally_block_def await_def send_def failing_def rendering_def
      json_def)

subsection \<open>The browser is closed on every exit path\<close>

text \<open>
  Claim C6.  For a request that reaches the render (accepted URL, no truthy cache value)
  and whose \<open>puppeteer.launch\<close> resolves, whatever the later calls do: \<open>browser.close\<close> is
  called exactly once and is the last call of the request, exactly one response has
  been sent before it, and the calls of the request (the response among them) are the
  same whatever \<open>browser.close\<close> does.  A rejection of \<open>browser.close\<close> shows only as the
  rejection of the handler's promise.
\<close>

theorem browser_released:
  assumes "new_URL ap u = Some p"
    and "\<not> truthy (cache_get c now (cacheKey u))"
    and "snd (launch pp) = Resolves ()"
  shows "last (calls (snd (render_handler ap pp (Some u) c now))) = Close
         \<and> filter (\<lambda>c. c = Close) (calls (snd (render_handler ap pp (Some u) c now))) = [Close]
         \<and> length (sent (calls (snd (render_handler ap pp (Some u) c now)))) = 1
         \<and> (\<forall>cl. calls (snd (render_handler ap (pp\<lparr>close := cl\<rparr>) (Some u) c now)) =
                  calls (snd (render_handler ap pp (Some u) c now)))
         \<and> fst (render_handler ap pp (Some u) c now) =
             (case snd (close pp) of Resolves _ \<Rightarrow> Resolves () | Rejects m \<Rightarrow> Rejects m)"
proof -
  let ?s = "\<lparr>cache = c, clock = now, browser = False, calls = [CacheGet (cacheKey u)]\<rparr>"
  let ?t = "try_block pp u ?s"
  have h: "render_handler ap pp (Some u) c now = finally_block pp (catch_block ?t)"
    using assms(1,2) by (simp add: render_handler_miss new_URL_nonempty)
  have b: "browser (catch_block ?t)"
    using assms(3) by (simp add: catch_block_fields try_block_launched)
  have n: "length (sent (calls (catch_block ?t))) = 1"
    by (cases "fst ?t") (simp_all add: catch_block_fields try_block_launched)
  show ?thesis
    using b n
    by (simp add: render_handler_close h finally_block_calls catch_block_fields
        try_block_launched sent_append)
qed

theorem browser_released_witness:
  "new_URL simple_authority ''https://example.com'' =
     Some \<lparr>scheme = ''https'', host = Some ''example.com''\<rparr>
   \<and> \<not> truthy (cache_get Map.empty 1000 (cacheKey ''https://example.com''))
   \<and> snd (launch ((failing ''timeout'')\<lparr>close := (40, Rejects ''Target closed'')\<rparr>)) = Resolves ()
   \<and> last (calls (snd (render_handler simple_authority
        ((failing ''timeout'')\<lparr>close := (40, Rejects ''Target closed'')\<rparr>)
        (Some ''https://example.com'') Map.empty 1000))) = Close
   \<and> length (sent (calls (snd (render_handler simple_authority
        ((failing ''timeout'')\<lparr>close := (40, Rejects ''Target closed'')\<rparr>)
        (Some ''https://example.com'') Map.empty 1000)))) = 1
   \<and> calls (snd (render_handler simple_authority
        ((failing ''timeout'')\<lparr>close := (40, Rejects ''Target closed'')\<rparr>)
        (Some ''https://example.com'') Map.empty 1000)) =
       calls (snd (render_handler simple_authority (failing ''timeout'')
        (Some ''https://example.com'') Map.empty 1000))
   \<and> fst (render_handler simple_authority
        ((failing ''timeout'')\<lparr>close := (40, Rejects ''Target closed'')\<rparr>)
        (Some ''https://example.com'') Map.empty 1000) = Rejects ''Target closed''"
proof -
  have m: "\<not> truthy (cache_get Map.empty 1000 (cacheKey ''https://example.com''))"
    by (simp add: cache_get_def truthy_def)
  have l: "snd (launch ((failing ''timeout'')\<lparr>close := (40, Rejects ''Target closed'')\<rparr>)) = Resolves ()"
    by (simp add: failing_def rendering_def)
  have l': "snd (launch (failing ''timeout'')) = Resolves ()"
    by (simp add: failing_def rendering_def)
  note w = browser_released [OF new_URL_example m l]
  note w' = browser_released [OF new_URL_example m l', THEN conjunct2, THEN conjunct2,
      THEN conjunct2, THEN conjunct1, rule_format, where cl = "(40, Rejects ''Target closed'')"]
  show ?thesis
    using w w' m l by (simp add: new_URL_example)
qed

subsection \<open>The configuration of a render\<close>

text \<open>
  Claim C7.  In every run of the handler, each call carries the fixed configuration:
  the user agent \<open>Mozilla/5.0 (compatible; PrerenderBot/1.0)\<close>, the viewport 1200 by 800,
  the navigation to the requested URL with wait condition \<open>networkidle0\<close> and a timeout
  of 30 seconds, and a settle delay of 2 seconds.  The browser calls of a run are an
  initial part of the sequence launch, new page, user agent, viewport, navigation,
  settle delay, content, possibly followed by the close: so the settle delay is awaited
  only after the navigation has resolved.  When the request reaches the render and
  every call resolves, the browser calls are the whole sequence and the close.
\<close>

theorem renderer_configuration:
  "list_all (configured u) (calls (snd (render_handler ap pp (Some u) c now)))
   \<and> (\<exists>n. filter browser_call (calls (snd (render_handler ap pp (Some u) c now))) =
            take n (render_sequence u)
          \<or> filter browser_call (calls (snd (render_handler ap pp (Some u) c now))) =
            take n (render_sequence u) @ [Close])
   \<and> (new_URL ap u \<noteq> None \<and> \<not> truthy (cache_get c now (cacheKey u)) \<and> render_failure pp = None \<longrightarrow>
        filter browser_call (calls (snd (render_handler ap pp (Some u) c now))) =
          [Launch ''new'' launch_args, NewPage,
           SetUserAgent ''Mozilla/5.0 (compatible; PrerenderBot/1.0)'',
           SetViewport 1200 800, Goto u ''networkidle0'' (30 * 1000), WaitForTimeout (2 * 1000),
           Content, Close])"
proof -
  let ?r = "render_handler ap pp (Some u) c now"
  let ?s = "\<lparr>cache = c, clock = now, browser = False, calls = [CacheGet (cacheKey u)]\<rparr>"
  have ab: "list_all (configured u) (calls (snd ?r))
    \<and> (\<exists>n. filter browser_call (calls (snd ?r)) = take n (render_sequence u)
          \<or> filter browser_call (calls (snd ?r)) = take n (render_sequence u) @ [Close])"
  proof -
    consider (rejected) r where "calls (snd ?r) = [Send r]"
      | (hit) r where "calls (snd ?r) = [CacheGet (cacheKey u), Send r]"
      | (miss) "?r = finally_block pp (catch_block (try_block pp u ?s))"
      using render_handler_paths [of ap pp u c now] by blast
    then show ?thesis
    proof cases
      case rejected
      then have "list_all (configured u) (calls (snd ?r))
        \<and> filter browser_call (calls (snd ?r)) = take 0 (render_sequence u)"
        by simp
      then show ?thesis by blast
    next
      case hit
      then have "list_all (configured u) (calls (snd ?r))
        \<and> filter browser_call (calls (snd ?r)) = take 0 (render_sequence u)"
        by simp
      then show ?thesis by blast
    next
      case miss
      obtain n where n: "filter browser_call (calls (snd (try_block pp u ?s))) =
            filter browser_call (calls ?s) @ take n (render_sequence u)"
          "list_all (configured u) (calls (snd (try_block pp u ?s))) =
            list_all (configured u) (calls ?s)"
        using try_block_calls [of pp u ?s] by blast
      have "list_all (configured u) (calls (snd ?r))"
        by (simp add: miss finally_block_calls catch_block_calls n)
      moreover have "filter browser_call (calls (snd ?r)) = take n (render_sequence u)
          \<or> filter browser_call (calls (snd ?r)) = take n (render_sequence u) @ [Close]"
        by (simp add: miss finally_block_calls catch_block_calls n)
      ultimately show ?thesis by blast
    qed
  qed
  have c: "filter browser_call (calls (snd ?r)) =
          [Launch ''new'' launch_args, NewPage,
           SetUserAgent ''Mozilla/5.0 (compatible; PrerenderBot/1.0)'',
           SetViewport 1200 800, Goto u ''networkidle0'' (30 * 1000), WaitForTimeout (2 * 1000),
           Content, Close]"
    if "new_URL ap u \<noteq> None" "\<not> truthy (cache_get c now (cacheKey u))" "render_failure pp = None"
  proof -
    from that(1) obtain p where p: "new_URL ap u = Some p" by blast
    from try_block_ok [OF that(3), of u ?s] obtain html where "snd (content pp) = Resolves html"
      by blast
    from render_handler_fresh(1) [OF p that(2,3) this] show ?thesis
      by simp
  qed
  from ab c show ?thesis by blast
qed

theorem renderer_configuration_witness:
  "new_URL simple_authority ''https://example.com'' \<noteq> None
   \<and> \<not> truthy (cache_get Map.empty 1000 (cacheKey ''https://example.com''))
   \<and> render_failure (rendering ''<html>FRESH</html>'') = None
   \<and> filter browser_call (calls (snd (render_handler simple_authority
        (rendering ''<html>FRESH</html>'') (Some ''https://example.com'') Map.empty 1000))) =
       [Launch ''new'' launch_args, NewPage,
        SetUserAgent ''Mozilla/5.0 (compatible; PrerenderBot/1.0)'',
        SetViewport 1200 800, Goto ''https://example.com'' ''networkidle0'' 30000,
        WaitForTimeout 2000, Content, Close]"
proof -
  have m: "\<not> truthy (cache_get Map.empty 1000 (cacheKey ''https://example.com''))"
    by (simp add: cache_get_def truthy_def)
  show ?thesis
    using renderer_configuration [of "''https://example.com''" simple_authority
        "rendering ''<html>FRESH</html>''" Map.empty 1000,
        THEN conjunct2, THEN conjunct2] m
    by (simp add: new_URL_example render_failure_rendering)
qed

subsection \<open>Deleting one key\<close>

text \<open>
  Claim C8.  \<open>POST /clear-cache\<close> with a non-empty \<open>url\<close> in the body deletes the key
  \<open>prerender:\<close> followed by that URL and nothing else: every other key keeps its entry,
  so \<open>get\<close> of it returns what it returned before; \<open>get\<close> of the deleted key returns absent;
  and when the key had no entry the cache is unchanged.  The same holds of \<open>delete\<close> on
  any key.
\<close>

theorem single_key_delete:
  assumes "url \<noteq> []" and "k2 \<noteq> cacheKey url"
  shows "snd (clear_cache_handler (Some url) c) = cache_del c (''prerender:'' @ url)
         \<and> cache_get (snd (clear_cache_handler (Some url) c)) t k2 = cache_get c t k2
         \<and> snd (clear_cache_handler (Some url) c) k2 = c k2
         \<and> cache_get (snd (clear_cache_handler (Some url) c)) t (cacheKey url) = None
         \<and> (c (cacheKey url) = None \<longrightarrow> snd (clear_cache_handler (Some url) c) = c)
         \<and> (\<forall>k. k2 \<noteq> k \<longrightarrow> cache_get (cache_del c k) t k2 = cache_get c t k2)
         \<and> (\<forall>k. c k = None \<longrightarrow> cache_del c k = c)"
  using assms
  by (auto simp: clear_cache_handler_def truthy_def cache_del_def cache_get_def cacheKey_def)

theorem single_key_delete_witness:
  "''https://a.com'' \<noteq> [] \<and> ''prerender:https://b.com'' \<noteq> cacheKey ''https://a.com''
   \<and> cache_get (snd (clear_cache_handler (Some ''https://a.com'')
          (cache_set (cache_set Map.empty 1000 ''prerender:https://a.com'' ''<html>A</html>'')
             2000 ''prerender:https://b.com'' ''<html>B</html>'')))
        5000 ''prerender:https://b.com'' = Some ''<html>B</html>''
   \<and> cache_get (snd (clear_cache_handler (Some ''https://a.com'')
          (cache_set (cache_set Map.empty 1000 ''prerender:https://a.com'' ''<html>A</html>'')
             2000 ''prerender:https://b.com'' ''<html>B</html>'')))
        5000 (cacheKey ''https://a.com'') = None
   \<and> snd (clear_cache_handler (Some ''https://a.com'')
          (cache_set Map.empty 2000 ''prerender:https://b.com'' ''<html>B</html>'')) =
       cache_set Map.empty 2000 ''prerender:https://b.com'' ''<html>B</html>''"
proof -
  let ?c = "cache_set (cache_set Map.empty 1000 ''prerender:https://a.com'' ''<html>A</html>'')
             2000 ''prerender:https://b.com'' ''<html>B</html>''"
  let ?c' = "cache_set Map.empty 2000 ''prerender:https://b.com'' ''<html>B</html>''"
  have n: "''https://a.com'' \<noteq> []"
    by simp
  have d: "''prerender:https://b.com'' \<noteq> cacheKey ''https://a.com''"
    by (simp add: cacheKey_def)
  have a: "?c' (cacheKey ''https://a.com'') = None"
    by (simp add: cacheKey_def cache_set_def)
  have b: "cache_get ?c 5000 ''prerender:https://b.com'' = Some ''<html>B</html>''"
    by (simp add: cache_get_set_same stdTTL_def)
  note w = single_key_delete [OF n d, of ?c 5000]
  note w' = single_key_delete [OF n d, of ?c' 5000]
  note w2 = w [THEN conjunct2, THEN conjunct1, unfolded b]
  note w4 = w [THEN conjunct2, THEN conjunct2, THEN conjunct2, THEN conjunct1]
  note w5 = w' [THEN conjunct2, THEN conjunct2, THEN conjunct2, THEN conjunct2, THEN conjunct1,
      rule_format, OF a]
  show ?thesis
    using n d w2 w4 w5 by blast
qed

subsection \<open>Clearing the cache\<close>

text \<open>
  Claim C9.  \<open>POST /clear-cache\<close> with no \<open>url\<close> in the body (or an empty one) clears the
  cache: afterwards \<open>get\<close> returns absent for every key at every time, and a second clear
  leaves the cache as the first one left it.
\<close>

theorem clear_idempotent:
  assumes "\<not> truthy q"
  shows "snd (clear_cache_handler q c) = cache_flushAll c
         \<and> (\<forall>k t. cache_get (snd (clear_cache_handler q c)) t k = None)
         \<and> snd (clear_cache_handler q (snd (clear_cache_handler q c))) = snd (clear_cache_handler q c)
         \<and> cache_flushAll (cache_flushAll c) = cache_flushAll c
         \<and> fst (clear_cache_handler q c) =
             \<lparr>status = 200, contentType = ''application/json'',
              payload = Json [(''message'', ''All cache cleared'')]\<rparr>"
  using assms
  by (cases q) (simp_all add: clear_cache_handler_def cache_flushAll_def cache_get_def json_def)

theorem clear_idempotent_witness:
  "\<not> truthy None
   \<and> cache_get (snd (clear_cache_handler None
          (cache_set Map.empty 1000 ''prerender:https://a.com'' ''<html>A</html>'')))
        5000 ''prerender:https://a.com'' = None
   \<and> snd (clear_cache_handler None (snd (clear_cache_handler None
          (cache_set Map.empty 1000 ''prerender:https://a.com'' ''<html>A</html>'')))) =
       snd (clear_cache_handler None
          (cache_set Map.empty 1000 ''prerender:https://a.com'' ''<html>A</html>''))"
proof -
  have n: "\<not> truthy None"
    by (simp add: truthy_def)
  note w = clear_idempotent [OF n,
      of "cache_set Map.empty 1000 ''prerender:https://a.com'' ''<html>A</html>''"]
  note w2 = w [THEN conjunct2, THEN conjunct1, rule_format,
      where k = "''prerender:https://a.com''" and t = 5000]
  note w3 = w [THEN conjunct2, THEN conjunct2, THEN conjunct1]
  show ?thesis
    using n w2 w3 by blast
qed

subsection \<open>An empty cached markup counts as a miss\<close>

text \<open>
  Claim C10.  When the cache holds the empty string, unexpired, for the key of an
  accepted URL, the handler does not serve it: the entry exists, yet the browser is
  launched, and the calls and the outcome of the request are those of the same request
  against the cache without that entry.
\<close>

theorem empty_markup_is_a_miss:
  assumes "new_URL ap u = Some p"
    and "cache_get c now (cacheKey u) = Some []"
  shows "c (cacheKey u) \<noteq> None
         \<and> filter is_Launch (calls (snd (render_handler ap pp (Some u) c now))) =
             [Launch ''new'' launch_args]
         \<and> calls (snd (render_handler ap pp (Some u) c now)) =
             calls (snd (render_handler ap pp (Some u) (cache_del c (cacheKey u)) now))
         \<and> fst (render_handler ap pp (Some u) c now) =
             fst (render_handler ap pp (Some u) (cache_del c (cacheKey u)) now)"
proof -
  let ?s = "\<lparr>cache = c, clock = now, browser = False, calls = [CacheGet (cacheKey u)]\<rparr>"
  let ?s' = "\<lparr>cache = cache_del c (cacheKey u), clock = now, browser = False,
    calls = [CacheGet (cacheKey u)]\<rparr>"
  have m: "\<not> truthy (cache_get c now (cacheKey u))"
    using assms(2) by (simp add: truthy_def)
  have m': "\<not> truthy (cache_get (cache_del c (cacheKey u)) now (cacheKey u))"
    by (simp add: truthy_def cache_get_def cache_del_def)
  have h: "render_handler ap pp (Some u) c now = finally_block pp (catch_block (try_block pp u ?s))"
    using assms(1) m by (simp add: render_handler_miss new_URL_nonempty)
  have h': "render_handler ap pp (Some u) (cache_del c (cacheKey u)) now =
      finally_block pp (catch_block (try_block pp u ?s'))"
    using assms(1) m' by (simp add: render_handler_miss new_URL_nonempty)
  note e = try_block_same_calls [of ?s' ?s pp u, simplified]
  have "c (cacheKey u) \<noteq> None"
    using assms(2) by (auto simp: cache_get_def split: option.splits)
  moreover have "filter is_Launch (calls (snd (render_handler ap pp (Some u) c now))) =
      [Launch ''new'' launch_args]"
    by (simp add: h finally_block_calls catch_block_fields try_block_launched)
  moreover have "calls (snd (render_handler ap pp (Some u) c now)) =
      calls (snd (render_handler ap pp (Some u) (cache_del c (cacheKey u)) now))"
    by (simp add: h h' finally_block_calls catch_block_calls_eq catch_block_fields e)
  moreover have "fst (render_handler ap pp (Some u) c now) =
      fst (render_handler ap pp (Some u) (cache_del c (cacheKey u)) now)"
    by (simp add: h h' finally_block_calls catch_block_fields e)
  ultimately show ?thesis by blast
qed

theorem empty_markup_is_a_miss_witness:
  "new_URL simple_authority ''https://example.com'' =
     Some \<lparr>scheme = ''https'', host = Some ''example.com''\<rparr>
   \<and> cache_get (cache_set Map.empty 1000 ''prerender:https://example.com'' '''') 5000
        (cacheKey ''https://example.com'') = Some ''''
   \<and> filter is_Launch (calls (snd (render_handler simple_authority (rendering '''')
        (Some ''https://example.com'')
        (cache_set Map.empty 1000 ''prerender:https://example.com'' '''') 5000))) =
       [Launch ''new'' launch_args]"
proof -
  have g: "cache_get (cache_set Map.empty 1000 ''prerender:https://example.com'' '''') 5000
        (cacheKey ''https://example.com'') = Some ''''"
    by (simp add: cacheKey_def cache_get_set_same stdTTL_def)
  note w = empty_markup_is_a_miss [OF new_URL_example g, of "rendering ''''",
      THEN conjunct2, THEN conjunct1]
  show ?thesis
    using w g new_URL_example by blast
qed

end
